(* ===== verification/Prelude.thy ===== *)
theory Prelude
  imports Complex_Main "HOL-Library.Multiset" "HOL-Library.Sublist"
begin

text \<open>
  Shared vocabulary of the motorcade development: the names of the model's basic types,
  the collections of rewrite rules the component theories fill, and the generic facts on
  lists that the catalogue pipeline, the pagination and the page state machine all use.
\<close>

section \<open>Types of the model\<close>

text \<open>
  A translation key (\<open>product.name\<close>, \<open>category.loader\<close>) and the display text it
  resolves to are both strings; the i18next \<open>t\<close> function is a total map between them.
  A date is kept as the millisecond count \<open>new Date(d).getTime()\<close> returns for it.
\<close>

type_synonym lookup_key = string
type_synonym translation = "lookup_key \<Rightarrow> string"
type_synonym timestamp = int

section \<open>Rule collections\<close>

named_theorems js_simps \<open>equations of the JavaScript built-ins the components call\<close>
named_theorems view_simps \<open>equations of the derived view of the product listing\<close>

section \<open>Generic list facts\<close>

text \<open>Cutting a list into consecutive chunks of length \<open>k\<close> and gluing them back.\<close>

lemma concat_chunks:
  assumes "length xs \<le> n * k"
  shows "concat (map (\<lambda>i. take k (drop (i * k) xs)) [0..<n]) = xs"
  using assms
proof (induction n arbitrary: xs)
  case 0
  then show ?case by simp
next
  case (Suc n)
  have split: "xs = take (n * k) xs @ drop (n * k) xs" by simp
  have "concat (map (\<lambda>i. take k (drop (i * k) (take (n * k) xs))) [0..<n]) = take (n * k) xs"
    by (rule Suc.IH) simp
  moreover have "\<And>i. i < n \<Longrightarrow> take k (drop (i * k) (take (n * k) xs)) = take k (drop (i * k) xs)"
  proof -
    fix i assume "i < n"
    then have "i * k + k \<le> n * k"
      by (metis add.commute mult_Suc less_eq_Suc_le mult_le_mono1)
    then show "take k (drop (i * k) (take (n * k) xs)) = take k (drop (i * k) xs)"
      by (simp add: take_drop min_def)
  qed
  ultimately have "concat (map (\<lambda>i. take k (drop (i * k) xs)) [0..<n]) = take (n * k) xs"
    by (metis (no_types, lifting) atLeastLessThan_iff map_eq_conv set_upt)
  moreover have "take k (drop (n * k) xs) = drop (n * k) xs"
    using Suc.prems by simp
  ultimately show ?case by simp
qed

text \<open>A chunk is empty exactly when it starts at or past the end of the list.\<close>

lemma take_drop_Nil_iff:
  "take k (drop a xs) = [] \<longleftrightarrow> k = 0 \<or> length xs \<le> a"
  by auto

end
