(* ===== verification/JsRuntime.thy ===== *)
theory JsRuntime
  imports Prelude
begin

text \<open>
  The JavaScript built-ins that \<open>src/src/pages/Products.tsx\<close> calls, with the semantics
  ECMAScript gives them: \<open>String.prototype.toLowerCase\<close> (on the ASCII letters),
  \<open>String.prototype.includes\<close>, \<open>Array.prototype.slice\<close> with its relative indices,
  \<open>Array.prototype.sort\<close> with a comparator (stable since ES2019), and
  \<open>Math.ceil\<close> of a quotient. Each comes with the library function it agrees with.
\<close>

section \<open>Strings\<close>

definition js_to_lower_char :: "char \<Rightarrow> char" where
  "js_to_lower_char c =
     (let n = (of_char c :: nat) in if 65 \<le> n \<and> n \<le> 90 then char_of (n + 32) else c)"

definition js_to_upper_char :: "char \<Rightarrow> char" where
  "js_to_upper_char c =
     (let n = (of_char c :: nat) in if 97 \<le> n \<and> n \<le> 122 then char_of (n - 32) else c)"

definition js_to_lower :: "string \<Rightarrow> string" where
  "js_to_lower s = map js_to_lower_char s"

definition js_to_upper :: "string \<Rightarrow> string" where
  "js_to_upper s = map js_to_upper_char s"

text \<open>
  \<open>s.includes(q)\<close>: some position of \<open>s\<close> starts an occurrence of \<open>q\<close>; the search
  runs from position 0 to the end, as the specification's loop does.
\<close>

fun js_includes :: "'a list \<Rightarrow> 'a list \<Rightarrow> bool" where
  "js_includes [] q = prefix q []"
| "js_includes (c # s) q = (prefix q (c # s) \<or> js_includes s q)"

section \<open>Arrays\<close>

text \<open>The relative index of \<open>slice\<close>: negative counts from the end, both clamped.\<close>

definition js_rel_index :: "int \<Rightarrow> nat \<Rightarrow> nat" where
  "js_rel_index k len =
     (if k < 0 then nat (max (int len + k) 0) else nat (min k (int len)))"

definition js_slice :: "'a list \<Rightarrow> int \<Rightarrow> int \<Rightarrow> 'a list" where
  "js_slice xs s e =
     (let a = js_rel_index s (length xs); b = js_rel_index e (length xs)
      in take (b - a) (drop a xs))"

text \<open>
  \<open>xs.sort(cmp)\<close>. ECMAScript fixes the result, not the algorithm: for a consistent
  comparator it is the unique stable ordering. Insertion from the right realises it: the
  element inserted precedes in the input every element it is compared with, so it stays
  in front of each one that the comparator does not rank strictly below it.
\<close>

fun js_sort_insert :: "('a \<Rightarrow> 'a \<Rightarrow> int) \<Rightarrow> 'a \<Rightarrow> 'a list \<Rightarrow> 'a list" where
  "js_sort_insert cmp x [] = [x]"
| "js_sort_insert cmp x (y # ys) =
     (if cmp x y \<le> 0 then x # y # ys else y # js_sort_insert cmp x ys)"

definition js_sort :: "('a \<Rightarrow> 'a \<Rightarrow> int) \<Rightarrow> 'a list \<Rightarrow> 'a list" where
  "js_sort cmp xs = foldr (js_sort_insert cmp) xs []"

section \<open>Numbers\<close>

text \<open>\<open>Math.ceil(a / b)\<close> on integer operands, computed in integers.\<close>

definition js_ceil_div :: "int \<Rightarrow> int \<Rightarrow> int" where
  "js_ceil_div a b = - ((- a) div b)"

section \<open>Lemmas\<close>

subsection \<open>Case mapping\<close>

lemma js_to_lower_char_upper [simp]:
  "js_to_lower_char (js_to_upper_char c) = js_to_lower_char c"
proof (cases "97 \<le> (of_char c :: nat) \<and> (of_char c :: nat) \<le> 122")
  case True
  have "(of_char c :: nat) - 32 + 32 = of_char c" using True by arith
  moreover have "65 \<le> (of_char c :: nat) - 32 \<and> (of_char c :: nat) - 32 \<le> 90"
    using True by arith
  moreover have "(of_char c :: nat) - 32 < 256"
    using nat_of_char_less_256 [of c] by arith
  then have "((of_char c :: nat) - 32) mod 256 = of_char c - 32"
    by simp
  ultimately show ?thesis using True
    by (simp add: js_to_lower_char_def js_to_upper_char_def Let_def)
next
  case False
  then have "js_to_upper_char c = c" by (auto simp: js_to_upper_char_def Let_def)
  then show ?thesis by simp
qed

lemma js_to_lower_char_idem [simp]:
  "js_to_lower_char (js_to_lower_char c) = js_to_lower_char c"
  by (simp add: js_to_lower_char_def Let_def)

lemma js_to_lower_upper [simp]: "js_to_lower (js_to_upper s) = js_to_lower s"
  by (simp add: js_to_lower_def js_to_upper_def)

lemma js_to_lower_idem [simp]: "js_to_lower (js_to_lower s) = js_to_lower s"
  by (simp add: js_to_lower_def)

lemma js_to_lower_Nil [simp]: "js_to_lower [] = []"
  by (simp add: js_to_lower_def)

lemma length_js_to_lower [simp]: "length (js_to_lower s) = length s"
  by (simp add: js_to_lower_def)

subsection \<open>Substring search\<close>

lemma js_includes_sublist: "js_includes s q \<longleftrightarrow> sublist q s"
  by (induction s) (auto simp: sublist_Cons_right)

lemma js_includes_Nil [simp]: "js_includes s []"
  by (simp add: js_includes_sublist)

subsection \<open>Slicing\<close>

lemma js_slice_nonneg:
  assumes "0 \<le> s" "s \<le> e"
  shows "js_slice xs s e = take (nat (e - s)) (drop (nat s) xs)"
proof (cases "e \<le> int (length xs)")
  case True
  with assms show ?thesis
    by (simp add: js_slice_def js_rel_index_def nat_diff_distrib Let_def)
next
  case False
  then show ?thesis using assms
    by (auto simp: js_slice_def js_rel_index_def min_def nat_diff_distrib)
qed

text \<open>A slice is never longer than the distance between its two indices.\<close>

lemma js_rel_index_int:
  "int (js_rel_index k n) = (if k < 0 then max (int n + k) 0 else min k (int n))"
  by (simp add: js_rel_index_def)

lemma js_rel_index_diff: "s \<le> e \<Longrightarrow> js_rel_index e n - js_rel_index s n \<le> nat (e - s)"
proof -
  assume "s \<le> e"
  then have "int (js_rel_index e n) - int (js_rel_index s n) \<le> e - s"
    unfolding js_rel_index_int by (simp add: max_def min_def split: if_splits)
  then show ?thesis by linarith
qed

lemma length_js_slice: "s \<le> e \<Longrightarrow> length (js_slice xs s e) \<le> nat (e - s)"
  using js_rel_index_diff [of s e "length xs"] by (simp add: js_slice_def Let_def)

subsection \<open>Sorting\<close>

lemma mset_js_sort_insert [simp]:
  "mset (js_sort_insert cmp x xs) = add_mset x (mset xs)"
  by (induction xs) auto

lemma mset_js_sort [simp]: "mset (js_sort cmp xs) = mset xs"
  by (induction xs) (simp_all add: js_sort_def)

lemma js_sort_Nil [simp]: "js_sort cmp [] = []"
  by (simp add: js_sort_def)

lemma js_sort_Cons: "js_sort cmp (x # xs) = js_sort_insert cmp x (js_sort cmp xs)"
  by (simp add: js_sort_def)

lemma length_js_sort [simp]: "length (js_sort cmp xs) = length xs"
  by (metis mset_js_sort size_mset)

lemma set_js_sort [simp]: "set (js_sort cmp xs) = set xs"
  by (metis mset_js_sort set_mset_mset)

text \<open>A comparator that subtracts integer keys inserts exactly as \<open>insort_key\<close> does.\<close>

lemma js_sort_insert_key:
  "js_sort_insert (\<lambda>a b. f a - f b) x xs = insort_key f x xs"
  by (induction xs) auto

lemma js_sort_key_cmp:
  "js_sort (\<lambda>a b. f a - f b) xs = sort_key f xs"
  by (induction xs) (simp_all add: js_sort_Cons js_sort_insert_key)

lemma js_sort_insert_zero_cmp: "js_sort_insert (\<lambda>_ _. 0) x xs = x # xs"
  by (cases xs) simp_all

lemma js_sort_zero_cmp: "js_sort (\<lambda>_ _. 0) xs = xs"
  by (induction xs) (simp_all add: js_sort_Cons js_sort_insert_zero_cmp)

text \<open>An input already in comparator order comes back unchanged.\<close>

lemma js_sort_sorted_id:
  "sorted_wrt (\<lambda>a b. cmp a b \<le> 0) xs \<Longrightarrow> js_sort cmp xs = xs"
proof (induction xs)
  case Nil
  then show ?case by simp
next
  case (Cons x xs)
  then show ?case by (cases xs) (simp_all add: js_sort_Cons)
qed

subsection \<open>Ceiling division\<close>

lemma js_ceil_div_real: "js_ceil_div a b = \<lceil>real_of_int a / real_of_int b\<rceil>"
  by (simp add: js_ceil_div_def ceiling_divide_eq_div)

lemmas [js_simps] = js_to_lower_def js_slice_def js_rel_index_def js_ceil_div_def

end
