(* ===== verification/Catalog.thy ===== *)
theory Catalog
  imports JsRuntime
begin

text \<open>
  The catalogue pipeline of \<open>src/src/pages/Products.tsx\<close>: the product record loaded from
  \<open>/products.json\<close>, the category buttons, and the body of the second \<open>useEffect\<close>
  (lines 49--66): a \<open>filter\<close> keeping the products whose category and translated
  texts match, followed by a \<open>sort\<close> with the comparator chosen by \<open>sortBy\<close>.
  The lemmas characterise the result: which products it keeps, the order
  of each sort key, and its agreement with \<open>sort_key\<close>.
\<close>

section \<open>Data\<close>

text \<open>
  A product as the listing reads it. \<open>name_key\<close> and \<open>description_key\<close> are the
  fields \<open>product.name\<close> and \<open>product.description\<close>, translation keys passed to
  \<open>t\<close>; \<open>date\<close> is \<open>new Date(product.date).getTime()\<close>. The fields only
  \<open>ProductCard\<close> renders are not read by the page and are left out.
\<close>

record product =
  product_id :: nat
  category :: lookup_key
  name_key :: lookup_key
  description_key :: lookup_key
  date :: timestamp

record category_entry =
  key :: lookup_key
  label :: string

definition category_keys :: "lookup_key list" where
  "category_keys =
     [''category.all'', ''category.excavator'', ''category.loader'', ''category.roller'',
      ''category.truck'', ''category.bulldozer'', ''category.underground_machines'']"

text \<open>The \<open>categories\<close> array, rebuilt with fresh objects on every render.\<close>

definition categories :: "translation \<Rightarrow> category_entry list" where
  "categories tr = map (\<lambda>k. \<lparr>key = k, label = tr k\<rparr>) category_keys"

definition sort_options :: "string list" where
  "sort_options = [''newest'', ''oldest'', ''name-asc'', ''name-desc'']"

section \<open>The filter\<close>

definition is_all_category :: "category_entry \<Rightarrow> bool" where
  "is_all_category sel \<longleftrightarrow> key sel = ''category.all''"

definition category_match :: "category_entry \<Rightarrow> product \<Rightarrow> bool" where
  "category_match sel p \<longleftrightarrow> is_all_category sel \<or> category p = key sel"

definition search_match :: "translation \<Rightarrow> string \<Rightarrow> product \<Rightarrow> bool" where
  "search_match tr q p \<longleftrightarrow>
     js_includes (js_to_lower (tr (name_key p))) (js_to_lower q) \<or>
     js_includes (js_to_lower (tr (description_key p))) (js_to_lower q)"

definition product_filter :: "translation \<Rightarrow> category_entry \<Rightarrow> string \<Rightarrow> product \<Rightarrow> bool" where
  "product_filter tr sel q p \<longleftrightarrow> category_match sel p \<and> search_match tr q p"

section \<open>The comparator\<close>

definition sort_compare :: "string \<Rightarrow> product \<Rightarrow> product \<Rightarrow> int" where
  "sort_compare sort_by a b =
     (if sort_by = ''newest'' then date b - date a
      else if sort_by = ''oldest'' then date a - date b
      else 0)"

section \<open>The pipeline\<close>

definition filter_and_sort ::
  "translation \<Rightarrow> category_entry \<Rightarrow> string \<Rightarrow> string \<Rightarrow> product list \<Rightarrow> product list" where
  "filter_and_sort tr sel q sort_by ps =
     js_sort (sort_compare sort_by) (filter (product_filter tr sel q) ps)"

section \<open>Lemmas\<close>

subsection \<open>Comparators as keys\<close>

text \<open>
  Both date comparators subtract integer keys, so \<open>js_sort\<close> with them is
  \<open>sort_key\<close>: the date for \<open>oldest\<close>, the negated date for \<open>newest\<close>.
\<close>

lemma sort_compare_newest: "sort_compare ''newest'' = (\<lambda>a b. (- date a) - (- date b))"
  by (simp add: sort_compare_def fun_eq_iff)

lemma sort_compare_oldest: "sort_compare ''oldest'' = (\<lambda>a b. date a - date b)"
  by (simp add: sort_compare_def fun_eq_iff)

lemma sort_compare_other:
  "sort_by \<noteq> ''newest'' \<Longrightarrow> sort_by \<noteq> ''oldest'' \<Longrightarrow> sort_compare sort_by = (\<lambda>_ _. 0)"
  by (simp add: sort_compare_def fun_eq_iff)

lemma js_sort_newest: "js_sort (sort_compare ''newest'') xs = sort_key (\<lambda>p. - date p) xs"
  unfolding sort_compare_newest by (rule js_sort_key_cmp)

lemma js_sort_oldest: "js_sort (sort_compare ''oldest'') xs = sort_key date xs"
  unfolding sort_compare_oldest by (rule js_sort_key_cmp)

lemma sorted_neg_key_iff: "sorted (map (\<lambda>p. - f p) xs) \<longleftrightarrow> sorted_wrt (\<ge>) (map f xs)"
  for f :: "'a \<Rightarrow> int"
  by (induction xs) auto

lemmas catalog_defs = filter_and_sort_def product_filter_def category_match_def search_match_def

subsection \<open>Which products the pipeline keeps\<close>

text \<open>C2. A product is in the filtered list exactly when it is in the loaded collection, matches the selected category (or the category is all), and its translated name or description contains the query case-insensitively.\<close>

lemma filter_and_sort_member:
  "p \<in> set (filter_and_sort tr sel q sort_by ps) \<longleftrightarrow>
     p \<in> set ps \<and> category_match sel p \<and> search_match tr q p"
  by (auto simp: filter_and_sort_def product_filter_def)

lemma product_filter_all_empty [simp]: "product_filter tr (hd (categories tr)) [] p"
  by (simp add: product_filter_def category_match_def is_all_category_def categories_def
      category_keys_def search_match_def)

text \<open>C21. The empty query matches every product.\<close>

lemma search_match_empty_query: "search_match tr [] p"
  by (simp add: search_match_def)

text \<open>C20. The search is case-insensitive in the query: upper-casing the ASCII letters of the query does not change which products match.\<close>

lemma search_match_upper_query: "search_match tr (js_to_upper q) p \<longleftrightarrow> search_match tr q p"
  by (simp add: search_match_def)

text \<open>C19. With the all category (the first button) and an empty query, the pipeline returns a permutation of the whole collection, whatever the sort key.\<close>

lemma all_category_empty_query:
  "mset (filter_and_sort tr (hd (categories tr)) [] sort_by ps) = mset ps"
  by (simp add: filter_and_sort_def)

lemma length_all_category_empty_query [simp]:
  "length (filter_and_sort tr (hd (categories tr)) [] sort_by ps) = length ps"
  by (simp add: filter_and_sort_def)

text \<open>C22. A product of the selected category is kept when the query is exactly its translated name (no false negatives on an exact match).\<close>

lemma exact_name_query_kept:
  assumes "p \<in> set ps" "category_match sel p"
  shows "p \<in> set (filter_and_sort tr sel (tr (name_key p)) sort_by ps)"
  using assms by (simp add: filter_and_sort_def product_filter_def search_match_def js_includes_sublist)

subsection \<open>The order of the result\<close>

text \<open>C3. With sort key newest the filtered list is in non-increasing order of date.\<close>

lemma filter_and_sort_newest_sorted:
  "sorted_wrt (\<ge>) (map date (filter_and_sort tr sel q ''newest'' ps))"
  unfolding filter_and_sort_def js_sort_newest sorted_neg_key_iff [symmetric]
  by (rule sorted_sort_key)

text \<open>C4. With sort key oldest the filtered list is in non-decreasing order of date.\<close>

lemma filter_and_sort_oldest_sorted:
  "sorted (map date (filter_and_sort tr sel q ''oldest'' ps))"
  unfolding filter_and_sort_def js_sort_oldest
  by (rule sorted_sort_key)

text \<open>C16. The oldest-first pipeline equals the library's stable sort_key by date applied to the kept products.\<close>

lemma filter_and_sort_oldest_sort_key:
  "filter_and_sort tr sel q ''oldest'' ps = sort_key date (filter (product_filter tr sel q) ps)"
  by (simp add: filter_and_sort_def js_sort_oldest)

text \<open>C17. Sorting newest-first keeps products with the same date in their original relative order.\<close>

lemma filter_and_sort_newest_stable:
  "filter (\<lambda>p. date p = d) (filter_and_sort tr sel q ''newest'' ps) =
     filter (\<lambda>p. date p = d) (filter (product_filter tr sel q) ps)"
proof -
  have "filter (\<lambda>p. - date p = - d) (sort_key (\<lambda>p. - date p) xs) = filter (\<lambda>p. - date p = - d) xs"
    for xs :: "product list"
    by (rule sort_key_stable)
  then show ?thesis by (simp add: filter_and_sort_def js_sort_newest)
qed

text \<open>C18. For the sort keys other than newest and oldest (the name-asc and name-desc options) the comparator returns 0 and the filtered list keeps the catalogue order.\<close>

lemma filter_and_sort_name_sort_keeps_order:
  assumes "sort_by \<noteq> ''newest''" "sort_by \<noteq> ''oldest''"
  shows "filter_and_sort tr sel q sort_by ps = filter (product_filter tr sel q) ps"
  using assms by (simp add: filter_and_sort_def sort_compare_other js_sort_zero_cmp)

text \<open>
  Any stable ordering by date of the kept products is the one the code computes: the
  model of \<open>Array.prototype.sort\<close> is the only result ECMAScript allows.
\<close>

text \<open>C15. Any permutation of the kept products that is sorted by date and keeps products of equal date in their original order is the list the oldest-first pipeline returns, so the insertion-sort model of Array.prototype.sort is the only result a stable sort can give.\<close>

lemma oldest_sort_unique:
  assumes "mset ys = mset (filter (product_filter tr sel q) ps)"
    and "sorted (map date ys)"
    and "\<And>d. filter (\<lambda>p. date p = d) ys = filter (\<lambda>p. date p = d) (filter (product_filter tr sel q) ps)"
  shows "filter_and_sort tr sel q ''oldest'' ps = ys"
proof -
  have "sort_key date (filter (product_filter tr sel q) ps) = ys"
  proof (rule properties_for_sort_key)
    fix k assume "k \<in> set ys"
    show "filter (\<lambda>x. date k = date x) ys =
          filter (\<lambda>x. date k = date x) (filter (product_filter tr sel q) ps)"
      using assms(3) [of "date k"] by (simp add: eq_commute)
  qed (use assms in simp_all)
  then show ?thesis by (simp add: filter_and_sort_def js_sort_oldest)
qed

section \<open>Witnesses\<close>

theorem exact_name_query_kept_witness:
  "\<lparr>product_id = 1, category = ''category.loader'', name_key = ''a'', description_key = ''a'', date = 2\<rparr> \<in> set [\<lparr>product_id = 1, category = ''category.loader'', name_key = ''a'', description_key = ''a'', date = 2\<rparr>] \<and>
   category_match (hd (categories (\<lambda>k. k))) \<lparr>product_id = 1, category = ''category.loader'', name_key = ''a'', description_key = ''a'', date = 2\<rparr> \<and>
   \<lparr>product_id = 1, category = ''category.loader'', name_key = ''a'', description_key = ''a'', date = 2\<rparr> \<in> set (filter_and_sort (\<lambda>k. k) (hd (categories (\<lambda>k. k))) ''a'' ''newest'' [\<lparr>product_id = 1, category = ''category.loader'', name_key = ''a'', description_key = ''a'', date = 2\<rparr>])"
proof -
  have h: "category_match (hd (categories (\<lambda>k. k))) \<lparr>product_id = 1, category = ''category.loader'', name_key = ''a'', description_key = ''a'', date = 2\<rparr>"
    by (simp add: category_match_def is_all_category_def categories_def category_keys_def)
  show ?thesis
    using exact_name_query_kept [of "\<lparr>product_id = 1, category = ''category.loader'', name_key = ''a'', description_key = ''a'', date = 2\<rparr>" "[\<lparr>product_id = 1, category = ''category.loader'', name_key = ''a'', description_key = ''a'', date = 2\<rparr>]" "hd (categories (\<lambda>k. k))" "\<lambda>k. k" "''newest''"] h
    by simp
qed

theorem filter_and_sort_name_sort_keeps_order_witness:
  "''name-asc'' \<noteq> ''newest'' \<and> ''name-asc'' \<noteq> ''oldest'' \<and>
   filter_and_sort (\<lambda>k. k) (hd (categories (\<lambda>k. k))) [] ''name-asc'' [\<lparr>product_id = 1, category = ''category.loader'', name_key = ''a'', description_key = ''a'', date = 2\<rparr>, \<lparr>product_id = 2, category = ''category.roller'', name_key = ''b'', description_key = ''b'', date = 1\<rparr>] =
     filter (product_filter (\<lambda>k. k) (hd (categories (\<lambda>k. k))) []) [\<lparr>product_id = 1, category = ''category.loader'', name_key = ''a'', description_key = ''a'', date = 2\<rparr>, \<lparr>product_id = 2, category = ''category.roller'', name_key = ''b'', description_key = ''b'', date = 1\<rparr>]"
  using filter_and_sort_name_sort_keeps_order [of "''name-asc''" "\<lambda>k. k" "hd (categories (\<lambda>k. k))" "[]"
      "[\<lparr>product_id = 1, category = ''category.loader'', name_key = ''a'', description_key = ''a'', date = 2\<rparr>, \<lparr>product_id = 2, category = ''category.roller'', name_key = ''b'', description_key = ''b'', date = 1\<rparr>]"]
  by simp

theorem oldest_sort_unique_witness:
  "sorted (map date [\<lparr>product_id = 2, category = ''category.roller'', name_key = ''b'', description_key = ''b'', date = 1\<rparr>, \<lparr>product_id = 1, category = ''category.loader'', name_key = ''a'', description_key = ''a'', date = 2\<rparr>]) \<and>
   filter_and_sort (\<lambda>k. k) (hd (categories (\<lambda>k. k))) [] ''oldest'' [\<lparr>product_id = 1, category = ''category.loader'', name_key = ''a'', description_key = ''a'', date = 2\<rparr>, \<lparr>product_id = 2, category = ''category.roller'', name_key = ''b'', description_key = ''b'', date = 1\<rparr>] = [\<lparr>product_id = 2, category = ''category.roller'', name_key = ''b'', description_key = ''b'', date = 1\<rparr>, \<lparr>product_id = 1, category = ''category.loader'', name_key = ''a'', description_key = ''a'', date = 2\<rparr>]"
proof -
  have h1: "mset [\<lparr>product_id = 2, category = ''category.roller'', name_key = ''b'', description_key = ''b'', date = 1\<rparr>, \<lparr>product_id = 1, category = ''category.loader'', name_key = ''a'', description_key = ''a'', date = 2\<rparr>] = mset (filter (product_filter (\<lambda>k. k) (hd (categories (\<lambda>k. k))) []) [\<lparr>product_id = 1, category = ''category.loader'', name_key = ''a'', description_key = ''a'', date = 2\<rparr>, \<lparr>product_id = 2, category = ''category.roller'', name_key = ''b'', description_key = ''b'', date = 1\<rparr>])"
    by simp
  have h2: "sorted (map date [\<lparr>product_id = 2, category = ''category.roller'', name_key = ''b'', description_key = ''b'', date = 1\<rparr>, \<lparr>product_id = 1, category = ''category.loader'', name_key = ''a'', description_key = ''a'', date = 2\<rparr>])" by simp
  have h3: "filter (\<lambda>p. date p = d) [\<lparr>product_id = 2, category = ''category.roller'', name_key = ''b'', description_key = ''b'', date = 1\<rparr>, \<lparr>product_id = 1, category = ''category.loader'', name_key = ''a'', description_key = ''a'', date = 2\<rparr>] =
            filter (\<lambda>p. date p = d) (filter (product_filter (\<lambda>k. k) (hd (categories (\<lambda>k. k))) []) [\<lparr>product_id = 1, category = ''category.loader'', name_key = ''a'', description_key = ''a'', date = 2\<rparr>, \<lparr>product_id = 2, category = ''category.roller'', name_key = ''b'', description_key = ''b'', date = 1\<rparr>])"
    for d
    by (cases "d = 1") auto
  show ?thesis using oldest_sort_unique [OF h1 h2 h3] h2 by simp
qed

end
