(* ===== verification/Pagination.thy ===== *)
theory Pagination
  imports JsRuntime
begin

text \<open>
  The pagination of \<open>src/src/pages/Products.tsx\<close>: the page size \<open>itemsPerPage\<close>,
  \<open>totalPages = Math.ceil(filteredProducts.length / itemsPerPage)\<close>, the slice shown for
  \<open>currentPage\<close>, and the three kinds of buttons (previous, one per page number,
  next) with their \<open>disabled\<close> conditions and \<open>onClick\<close> targets. Page numbers
  are JavaScript numbers and may leave \<open>[1, totalPages]\<close>, so they are \<open>int\<close>.
  The lemmas show that the pages partition the list, bound each page, and say exactly
  which page numbers show something.
\<close>

section \<open>Definitions\<close>

definition items_per_page :: int where
  "items_per_page = 9"

definition total_pages :: "'a list \<Rightarrow> int" where
  "total_pages xs = js_ceil_div (int (length xs)) items_per_page"

definition paginate :: "'a list \<Rightarrow> int \<Rightarrow> 'a list" where
  "paginate xs current_page =
     js_slice xs ((current_page - 1) * items_per_page) (current_page * items_per_page)"

text \<open>\<open>disabled={currentPage === 1}\<close> and \<open>disabled={currentPage === totalPages}\<close>.\<close>

definition prev_disabled :: "int \<Rightarrow> bool" where
  "prev_disabled current_page \<longleftrightarrow> current_page = 1"

definition next_disabled :: "int \<Rightarrow> int \<Rightarrow> bool" where
  "next_disabled current_page tp \<longleftrightarrow> current_page = tp"

text \<open>The functional updates \<open>prev => Math.max(prev - 1, 1)\<close> and \<open>Math.min(prev + 1, totalPages)\<close>.\<close>

definition prev_target :: "int \<Rightarrow> int" where
  "prev_target current_page = max (current_page - 1) 1"

definition next_target :: "int \<Rightarrow> int \<Rightarrow> int" where
  "next_target current_page tp = min (current_page + 1) tp"

text \<open>\<open>Array.from({ length: totalPages }, (_, i) => i + 1)\<close>: the labels of the page buttons.\<close>

definition page_buttons :: "int \<Rightarrow> int list" where
  "page_buttons tp = map (\<lambda>i. int i + 1) [0..<nat tp]"

text \<open>
  The page numbers the buttons can reach: \<open>[1, max 1 totalPages]\<close>, and 0 when there
  are no pages (a click on the enabled next button of an empty listing).
\<close>

definition page_ok :: "int \<Rightarrow> int \<Rightarrow> bool" where
  "page_ok p tp \<longleftrightarrow> (1 \<le> p \<and> p \<le> max 1 tp) \<or> (p = 0 \<and> tp = 0)"

section \<open>Lemmas\<close>

subsection \<open>The buttons keep the page number in range\<close>

lemma page_ok_reset [simp]: "page_ok 1 tp"
  by (simp add: page_ok_def)

lemma page_ok_prev: "page_ok p tp \<Longrightarrow> \<not> prev_disabled p \<Longrightarrow> page_ok (prev_target p) tp"
  by (auto simp: page_ok_def prev_disabled_def prev_target_def)

lemma page_ok_next:
  "0 \<le> tp \<Longrightarrow> page_ok p tp \<Longrightarrow> \<not> next_disabled p tp \<Longrightarrow> page_ok (next_target p tp) tp"
  by (auto simp: page_ok_def next_disabled_def next_target_def)

lemma page_ok_button: "int i < tp \<Longrightarrow> page_ok (int i + 1) tp"
  by (simp add: page_ok_def)

subsection \<open>Page count\<close>

lemma ceil_div_nat:
  "(n + 8) div 9 = (if n mod 9 = 0 then n div 9 else Suc (n div 9))" for n :: nat
proof -
  have n: "n = 9 * (n div 9) + n mod 9" and r: "n mod 9 < 9" by simp_all
  show ?thesis
  proof (cases "n mod 9 = 0")
    case True
    have "9 * (n div 9) \<le> n + 8" "n + 8 < 9 * (n div 9) + 9" using n True by linarith+
    then have "(n + 8) div 9 = n div 9" by (intro div_nat_eqI) simp_all
    with True show ?thesis by simp
  next
    case False
    have "9 * (n div 9) + 9 \<le> n + 8" "n + 8 < 9 * (n div 9) + 18" using n r False by linarith+
    then have "(n + 8) div 9 = Suc (n div 9)" by (intro div_nat_eqI) simp_all
    with False show ?thesis by simp
  qed
qed

lemma total_pages_nat: "total_pages xs = int ((length xs + 8) div 9)"
proof -
  have d: "int (length xs) div 9 = int (length xs div 9)" and m: "int (length xs) mod 9 = int (length xs mod 9)"
    by (simp_all add: zdiv_int zmod_int)
  show ?thesis
    by (simp add: total_pages_def items_per_page_def js_ceil_div_def zdiv_zminus1_eq_if d m
        ceil_div_nat)
qed

lemma total_pages_nonneg [simp]: "0 \<le> total_pages xs"
  by (simp add: total_pages_nat)

lemma total_pages_zero_iff: "total_pages xs = 0 \<longleftrightarrow> xs = []"
  by (cases xs) (auto simp: total_pages_nat)

lemma total_pages_covers: "length xs \<le> nat (total_pages xs) * 9"
  by (simp add: total_pages_nat)

lemma total_pages_tight: "(total_pages xs - 1) * 9 < int (length xs) \<or> xs = []"
  unfolding total_pages_nat by (cases xs) auto

text \<open>From page 1 on, a page is the \<open>take\<close>/\<open>drop\<close> window the slice describes.\<close>

lemma paginate_pos:
  assumes "1 \<le> p"
  shows "paginate xs p = take 9 (drop (nat (p - 1) * 9) xs)"
proof -
  have "nat ((p - 1) * 9) = nat (p - 1) * 9"
    using assms by (simp add: nat_mult_distrib)
  moreover have "(p - 1) * 9 = p * 9 - 9" by simp
  ultimately show ?thesis
    using assms by (simp add: paginate_def items_per_page_def js_slice_nonneg)
qed

lemma paginate_zero [simp]: "paginate xs 0 = []"
  by (simp add: paginate_def items_per_page_def js_simps)

lemma paginate_button: "paginate xs (int i + 1) = take 9 (drop (i * 9) xs)"
  by (simp add: paginate_pos)

lemma page_buttons_total: "page_buttons (total_pages xs) = map (\<lambda>i. int i + 1) [0..<(length xs + 8) div 9]"
  by (simp add: page_buttons_def total_pages_nat)

subsection \<open>The pages partition the list\<close>

text \<open>C5. Concatenating the slices shown for the page numbers of the page buttons, 1 to totalPages, gives back the whole filtered list: the pages partition it in order.\<close>

lemma pages_concat:
  "concat (map (paginate xs) (page_buttons (total_pages xs))) = xs"
proof -
  have "concat (map (paginate xs) (page_buttons (total_pages xs))) =
        concat (map (\<lambda>i. take 9 (drop (i * 9) xs)) [0..<(length xs + 8) div 9])"
    by (simp add: page_buttons_total comp_def paginate_button)
  also have "\<dots> = xs"
    by (rule concat_chunks) simp
  finally show ?thesis .
qed

text \<open>C23. Every page slice holds at most itemsPerPage = 9 products, whatever the page number, including 0 and negative ones.\<close>

lemma length_paginate: "length (paginate xs p) \<le> 9"
  using length_js_slice [of "(p - 1) * 9" "p * 9" xs]
  by (simp add: paginate_def items_per_page_def algebra_simps)

text \<open>C24. For a non-negative page number, the page slice is non-empty exactly when the page number is between 1 and totalPages.\<close>

lemma paginate_nonempty_iff:
  assumes "0 \<le> p"
  shows "paginate xs p \<noteq> [] \<longleftrightarrow> 1 \<le> p \<and> p \<le> total_pages xs"
proof (cases "p = 0")
  case True
  then show ?thesis by simp
next
  case False
  with assms have p: "1 \<le> p" by simp
  have "paginate xs p \<noteq> [] \<longleftrightarrow> nat (p - 1) * 9 < length xs"
    using p by (simp add: paginate_pos not_le)
  also have "\<dots> \<longleftrightarrow> p \<le> total_pages xs"
    using p by (simp add: total_pages_nat) linarith
  finally show ?thesis using p by simp
qed

subsection \<open>Twenty products\<close>

text \<open>C25. For 20 products there are 3 pages: page 1 shows items 1-9, page 2 items 10-18, page 3 items 19-20; previous is disabled on page 1 and next is disabled on page 3 only.\<close>

lemma pagination_twenty:
  assumes "length xs = 20"
  shows "total_pages xs = 3 \<and> page_buttons (total_pages xs) = [1, 2, 3] \<and>
         paginate xs 1 = take 9 xs \<and> paginate xs 2 = take 9 (drop 9 xs) \<and>
         paginate xs 3 = drop 18 xs \<and> length (paginate xs 3) = 2 \<and>
         prev_disabled 1 \<and> \<not> next_disabled 1 (total_pages xs) \<and>
         next_disabled 3 (total_pages xs)"
  using assms
  by (simp add: total_pages_nat page_buttons_def paginate_pos prev_disabled_def next_disabled_def
      upt_rec)

lemmas pagination_defs = paginate_def items_per_page_def prev_disabled_def next_disabled_def
  prev_target_def next_target_def page_buttons_def

section \<open>Witnesses\<close>

theorem paginate_nonempty_iff_witness:
  "0 \<le> (1::int) \<and> (paginate [0::nat] 1 \<noteq> [] \<longleftrightarrow> 1 \<le> (1::int) \<and> 1 \<le> total_pages [0::nat])"
  using paginate_nonempty_iff [of 1 "[0::nat]"] by simp

theorem pagination_twenty_witness:
  "length (replicate 20 (0::nat)) = 20 \<and> length (paginate (replicate 20 (0::nat)) 3) = 2"
  using pagination_twenty [of "replicate 20 (0::nat)"] by simp

end
