(* ===== verification/ProductsPage.thy ===== *)
theory ProductsPage
  imports Catalog Pagination
begin

text \<open>
  The \<open>Products\<close> component of \<open>src/src/pages/Products.tsx\<close> as a state machine. Its
  state is the component's \<open>useState\<close> hooks together with the translation function;
  an event is one thing the browser or the network delivers (the catalogue request
  settling, a click, a keystroke, a language switch). A step runs the handler and then,
  when the handler changed a dependency of the filtering \<open>useEffect\<close> (line 70), the
  effect itself, so a step ends in the state React renders once the effect has run.
  The invariant ties the derived view to its inputs and bounds the current page.
\<close>

section \<open>State and events\<close>

record page_state =
  translate :: translation
  selected_category :: category_entry
  search_query :: string
  sort_by :: string
  products :: "product list"
  filtered_products :: "product list"
  current_page :: int
  loading :: bool

text \<open>The state after mounting: the mount run of the filtering effect returns early.\<close>

definition init_page :: "translation \<Rightarrow> page_state" where
  "init_page tr =
     \<lparr>translate = tr, selected_category = hd (categories tr), search_query = [],
      sort_by = ''newest'', products = [], filtered_products = [], current_page = 1,
      loading = True\<rparr>"

datatype page_event =
    FetchResolved "product list"
  | FetchFailed
  | ClickCategory nat
  | TypeSearch string
  | SelectSort nat
  | ClickPrevious
  | ClickPageNumber nat
  | ClickNext
  | LanguageChanged translation

section \<open>The filtering effect\<close>

definition filter_effect :: "page_state \<Rightarrow> page_state" where
  "filter_effect st =
     (if loading st then st
      else st\<lparr>filtered_products :=
                filter_and_sort (translate st) (selected_category st) (search_query st)
                  (sort_by st) (products st),
              current_page := 1\<rparr>)"

section \<open>Handlers\<close>

text \<open>
  Each handler returns the new state and whether it changed a dependency of the effect
  (\<open>products\<close>, \<open>selectedCategory\<close>, \<open>searchQuery\<close>, \<open>sortBy\<close>, \<open>t\<close>,
  \<open>loading\<close>), compared with \<open>Object.is\<close> as React does. A category button stores
  the object of the current render's \<open>categories\<close> array, a fresh one, so it always
  counts as a change; a string state counts only when its value differs.
  The catalogue request is sent once, at mount, so it settles at most once: only while
  \<open>loading\<close> holds. A disabled button ignores its click; a button that is not
  rendered cannot be clicked.
\<close>

fun page_handle :: "page_state \<Rightarrow> page_event \<Rightarrow> page_state \<times> bool" where
  "page_handle st (FetchResolved data) =
     (if loading st then (st\<lparr>products := data, loading := False\<rparr>, True) else (st, False))"
| "page_handle st FetchFailed =
     (if loading st then (st\<lparr>loading := False\<rparr>, True) else (st, False))"
| "page_handle st (ClickCategory i) =
     (if i < length (categories (translate st))
      then (st\<lparr>selected_category := categories (translate st) ! i\<rparr>, True)
      else (st, False))"
| "page_handle st (TypeSearch q) = (st\<lparr>search_query := q\<rparr>, q \<noteq> search_query st)"
| "page_handle st (SelectSort i) =
     (if i < length sort_options
      then (st\<lparr>sort_by := sort_options ! i\<rparr>, sort_options ! i \<noteq> sort_by st)
      else (st, False))"
| "page_handle st ClickPrevious =
     (if prev_disabled (current_page st) then (st, False)
      else (st\<lparr>current_page := prev_target (current_page st)\<rparr>, False))"
| "page_handle st (ClickPageNumber i) =
     (if int i < total_pages (filtered_products st)
      then (st\<lparr>current_page := int i + 1\<rparr>, False)
      else (st, False))"
| "page_handle st ClickNext =
     (if next_disabled (current_page st) (total_pages (filtered_products st)) then (st, False)
      else (st\<lparr>current_page := next_target (current_page st) (total_pages (filtered_products st))\<rparr>,
            False))"
| "page_handle st (LanguageChanged tr) = (st\<lparr>translate := tr\<rparr>, True)"

definition page_step :: "page_state \<Rightarrow> page_event \<Rightarrow> page_state" where
  "page_step st ev = (case page_handle st ev of (st', changed) \<Rightarrow>
     if changed then filter_effect st' else st')"

fun page_run :: "page_state \<Rightarrow> page_event list \<Rightarrow> page_state" where
  "page_run st [] = st"
| "page_run st (ev # evs) = page_run (page_step st ev) evs"

inductive page_reachable :: "page_state \<Rightarrow> bool" where
  init: "page_reachable (init_page tr)"
| step: "page_reachable st \<Longrightarrow> page_reachable (page_step st ev)"

section \<open>Rendering\<close>

datatype grid_view = LoadingIndicator | ProductGrid "product list" | NoProductsFound

record page_view =
  grid :: grid_view
  previous_disabled :: bool
  page_numbers :: "int list"
  active_page :: int
  next_is_disabled :: bool

definition render :: "page_state \<Rightarrow> page_view" where
  "render st =
     (let tp = total_pages (filtered_products st);
          shown = paginate (filtered_products st) (current_page st)
      in \<lparr>grid = (if loading st then LoadingIndicator
                  else if shown \<noteq> [] then ProductGrid shown else NoProductsFound),
          previous_disabled = prev_disabled (current_page st),
          page_numbers = page_buttons tp,
          active_page = current_page st,
          next_is_disabled = next_disabled (current_page st) tp\<rparr>)"

section \<open>The invariant\<close>

text \<open>
  The derived view is the pipeline applied to the current inputs once the catalogue
  has settled, and empty before; the page number is in \<open>[1, max 1 totalPages]\<close>,
  or 0 when there are no pages; the selected category and the sort key are ones the
  page offers.
\<close>

definition view_consistent :: "page_state \<Rightarrow> bool" where
  "view_consistent st \<longleftrightarrow>
     (if loading st then products st = [] \<and> filtered_products st = []
      else filtered_products st =
             filter_and_sort (translate st) (selected_category st) (search_query st)
               (sort_by st) (products st))"

definition page_in_range :: "page_state \<Rightarrow> bool" where
  "page_in_range st \<longleftrightarrow> page_ok (current_page st) (total_pages (filtered_products st))"

definition page_inv :: "page_state \<Rightarrow> bool" where
  "page_inv st \<longleftrightarrow>
     view_consistent st \<and> page_in_range st \<and>
     key (selected_category st) \<in> set category_keys \<and> sort_by st \<in> set sort_options"

section \<open>Lemmas\<close>

lemma init_page_inv: "page_inv (init_page tr)"
  by (simp add: page_inv_def init_page_def view_consistent_def page_in_range_def
      categories_def category_keys_def sort_options_def)

lemma filter_effect_settled:
  "\<not> loading st \<Longrightarrow> view_consistent (filter_effect st) \<and> page_in_range (filter_effect st)"
  by (simp add: filter_effect_def view_consistent_def page_in_range_def)

lemma filter_effect_loading: "loading st \<Longrightarrow> filter_effect st = st"
  by (simp add: filter_effect_def)

lemma filter_effect_fields [simp]:
  "loading (filter_effect st) = loading st"
  "translate (filter_effect st) = translate st"
  "selected_category (filter_effect st) = selected_category st"
  "search_query (filter_effect st) = search_query st"
  "sort_by (filter_effect st) = sort_by st"
  "products (filter_effect st) = products st"
  by (simp_all add: filter_effect_def)

lemma category_key_mem: "i < length (categories tr) \<Longrightarrow> key (categories tr ! i) \<in> set category_keys"
  by (simp add: categories_def)

lemma filter_effect_inv:
  assumes "key (selected_category st) \<in> set category_keys" "sort_by st \<in> set sort_options"
    and "loading st \<Longrightarrow> page_inv st"
  shows "page_inv (filter_effect st)"
  using assms filter_effect_settled [of st]
  by (cases "loading st") (simp_all add: page_inv_def filter_effect_loading)

lemma page_handle_changed_inv:
  assumes "page_inv st" "page_handle st ev = (st', True)"
  shows "page_inv (filter_effect st')"
proof (rule filter_effect_inv)
  show "key (selected_category st') \<in> set category_keys"
    using assms by (cases ev) (auto simp: page_inv_def category_key_mem split: if_splits)
  show "sort_by st' \<in> set sort_options"
    using assms by (cases ev) (auto simp: page_inv_def split: if_splits)
  show "page_inv st'" if "loading st'"
    using assms that by (cases ev)
      (auto simp: page_inv_def view_consistent_def page_in_range_def category_key_mem
        split: if_splits)
qed

lemma page_in_range_prev:
  "page_in_range st \<Longrightarrow> \<not> prev_disabled (current_page st) \<Longrightarrow>
   page_in_range (st\<lparr>current_page := prev_target (current_page st)\<rparr>)"
  by (simp add: page_in_range_def page_ok_prev)

lemma page_in_range_next:
  "page_in_range st \<Longrightarrow> \<not> next_disabled (current_page st) (total_pages (filtered_products st)) \<Longrightarrow>
   page_in_range (st\<lparr>current_page := next_target (current_page st) (total_pages (filtered_products st))\<rparr>)"
  by (simp add: page_in_range_def page_ok_next)

lemma page_in_range_number:
  "int i < total_pages (filtered_products st) \<Longrightarrow> page_in_range (st\<lparr>current_page := int i + 1\<rparr>)"
  by (simp add: page_in_range_def page_ok_button)

lemma view_consistent_set_page [simp]:
  "view_consistent (st\<lparr>current_page := p\<rparr>) \<longleftrightarrow> view_consistent st"
  by (simp add: view_consistent_def)

lemma page_handle_unchanged_inv:
  assumes "page_inv st" "page_handle st ev = (st', False)"
  shows "page_inv st'"
  using assms
proof (cases ev)
  case ClickPrevious
  then show ?thesis using assms
    by (auto simp: page_inv_def intro: page_in_range_prev split: if_splits)
next
  case ClickNext
  then show ?thesis using assms
    by (auto simp: page_inv_def intro: page_in_range_next split: if_splits)
next
  case (ClickPageNumber i)
  then show ?thesis using assms
    by (auto simp: page_inv_def intro: page_in_range_number split: if_splits)
qed (auto split: if_splits)

lemma page_step_inv: "page_inv st \<Longrightarrow> page_inv (page_step st ev)"
  using page_handle_changed_inv page_handle_unchanged_inv
  by (cases "page_handle st ev") (auto simp: page_step_def split: if_splits)

lemma page_reachable_inv: "page_reachable st \<Longrightarrow> page_inv st"
proof (induction rule: page_reachable.induct)
  case (init tr)
  show ?case by (rule init_page_inv)
next
  case (step st ev)
  from step.IH show ?case by (rule page_step_inv)
qed

lemma page_run_reachable: "page_reachable st \<Longrightarrow> page_reachable (page_run st evs)"
  by (induction evs arbitrary: st) (auto intro: page_reachable.step)

lemma page_run_init_reachable: "page_reachable (page_run (init_page tr) evs)"
  by (rule page_run_reachable) (rule page_reachable.init)

lemmas page_step_simps = page_step_def filter_effect_def

subsection \<open>Properties of the reachable states\<close>

text \<open>C1. In every reachable state of the products page whose catalogue request has settled, filteredProducts is exactly the filter-and-sort pipeline applied to the current products, selected category, search query and sort key.\<close>

lemma page_reachable_view_consistent:
  assumes "page_reachable st" "\<not> loading st"
  shows "filtered_products st =
           filter_and_sort (translate st) (selected_category st) (search_query st) (sort_by st)
             (products st)"
  using page_reachable_inv [OF assms(1)] assms(2) by (simp add: page_inv_def view_consistent_def)

text \<open>C6. In every reachable state the current page is between 0 and max(1, totalPages), and it is 0 only when the filtered list is empty.\<close>

lemma reachable_page_bounds:
  assumes "page_reachable st"
  shows "0 \<le> current_page st \<and> current_page st \<le> max 1 (total_pages (filtered_products st)) \<and>
         (current_page st = 0 \<longrightarrow> filtered_products st = [])"
  using page_reachable_inv [OF assms]
  by (auto simp: page_inv_def page_in_range_def page_ok_def total_pages_zero_iff)

text \<open>C27. A failed catalogue request clears the loading flag and leaves an empty collection, and the page then shows the no-products message with no error message.\<close>

lemma fetch_failed_empty_listing:
  assumes "page_reachable st" "loading st"
  shows "products (page_step st FetchFailed) = [] \<and> \<not> loading (page_step st FetchFailed) \<and>
         grid (render (page_step st FetchFailed)) = NoProductsFound"
  using page_reachable_inv [OF assms(1)] assms(2)
  by (simp add: page_step_def filter_effect_def page_inv_def view_consistent_def render_def
      filter_and_sort_def Let_def paginate_pos)

subsection \<open>Page resets and page-only events\<close>

text \<open>C8. Once the catalogue has settled, typing a query different from the current one resets the current page to 1.\<close>

lemma search_change_resets_page:
  "\<not> loading st \<Longrightarrow> q \<noteq> search_query st \<Longrightarrow> current_page (page_step st (TypeSearch q)) = 1"
  by (simp add: page_step_def filter_effect_def)

text \<open>C9. Once the catalogue has settled, clicking any category button resets the current page to 1.\<close>

lemma category_click_resets_page:
  "\<not> loading st \<Longrightarrow> i < length (categories (translate st)) \<Longrightarrow>
   current_page (page_step st (ClickCategory i)) = 1"
  by (simp add: page_step_def filter_effect_def)

text \<open>C28. The previous, next and page-number buttons change only the current page: the collection, the filter inputs and the filtered list stay as they are.\<close>

lemma page_events_frame:
  "ev \<in> {ClickPrevious, ClickNext} \<union> range ClickPageNumber \<Longrightarrow>
   page_step st ev = st\<lparr>current_page := current_page (page_step st ev)\<rparr>"
  by (auto simp: page_step_def)

section \<open>Witnesses\<close>

lemma settled_empty_facts:
  "page_reachable (page_run (init_page (\<lambda>k. k)) [FetchFailed])" "\<not> loading (page_run (init_page (\<lambda>k. k)) [FetchFailed])" "search_query (page_run (init_page (\<lambda>k. k)) [FetchFailed]) = []"
  "translate (page_run (init_page (\<lambda>k. k)) [FetchFailed]) = (\<lambda>k. k)"
  by (rule page_run_init_reachable) (simp_all add: page_step_def filter_effect_def init_page_def)

theorem page_reachable_view_consistent_witness:
  "\<not> loading (page_run (init_page (\<lambda>k. k)) [FetchFailed]) \<and>
   filtered_products (page_run (init_page (\<lambda>k. k)) [FetchFailed]) =
     filter_and_sort (translate (page_run (init_page (\<lambda>k. k)) [FetchFailed])) (selected_category (page_run (init_page (\<lambda>k. k)) [FetchFailed])) (search_query (page_run (init_page (\<lambda>k. k)) [FetchFailed]))
       (sort_by (page_run (init_page (\<lambda>k. k)) [FetchFailed])) (products (page_run (init_page (\<lambda>k. k)) [FetchFailed]))"
  using page_reachable_view_consistent [OF settled_empty_facts(1,2)] settled_empty_facts(2) by simp

theorem reachable_page_bounds_witness:
  "0 \<le> current_page (page_run (init_page (\<lambda>k. k)) [FetchFailed]) \<and> current_page (page_run (init_page (\<lambda>k. k)) [FetchFailed]) \<le> max 1 (total_pages (filtered_products (page_run (init_page (\<lambda>k. k)) [FetchFailed])))"
  using reachable_page_bounds [OF settled_empty_facts(1)] by simp

theorem fetch_failed_empty_listing_witness:
  "loading (init_page (\<lambda>k. k)) \<and>
   grid (render (page_step (init_page (\<lambda>k. k)) FetchFailed)) = NoProductsFound"
  using fetch_failed_empty_listing [OF page_reachable.init [of "\<lambda>k. k"]]
  by (simp add: init_page_def)

theorem search_change_resets_page_witness:
  "\<not> loading (page_run (init_page (\<lambda>k. k)) [FetchFailed]) \<and> ''loader'' \<noteq> search_query (page_run (init_page (\<lambda>k. k)) [FetchFailed]) \<and>
   current_page (page_step (page_run (init_page (\<lambda>k. k)) [FetchFailed]) (TypeSearch ''loader'')) = 1"
  using search_change_resets_page [OF settled_empty_facts(2), of "''loader''"] settled_empty_facts
  by simp

theorem category_click_resets_page_witness:
  "\<not> loading (page_run (init_page (\<lambda>k. k)) [FetchFailed]) \<and> 1 < length (categories (translate (page_run (init_page (\<lambda>k. k)) [FetchFailed]))) \<and>
   current_page (page_step (page_run (init_page (\<lambda>k. k)) [FetchFailed]) (ClickCategory 1)) = 1"
proof -
  have h: "1 < length (categories (translate (page_run (init_page (\<lambda>k. k)) [FetchFailed])))"
    using settled_empty_facts(4) by (simp add: categories_def category_keys_def)
  show ?thesis using category_click_resets_page [OF settled_empty_facts(2) h] settled_empty_facts(2) h
    by simp
qed

theorem page_events_frame_witness:
  "ClickNext \<in> {ClickPrevious, ClickNext} \<union> range ClickPageNumber \<and>
   page_step (page_run (init_page (\<lambda>k. k)) [FetchFailed]) ClickNext = (page_run (init_page (\<lambda>k. k)) [FetchFailed])\<lparr>current_page := current_page (page_step (page_run (init_page (\<lambda>k. k)) [FetchFailed]) ClickNext)\<rparr>"
  using page_events_frame [of ClickNext "page_run (init_page (\<lambda>k. k)) [FetchFailed]"] by simp

end
