(* ===== verification/ContactForm.thy ===== *)
theory ContactForm
  imports Prelude
begin

text \<open>
  The contact form of \<open>src/src/components/ContactForm.tsx\<close>. Its state is the
  \<open>formData\<close> and \<open>isSubmitting\<close> hooks; the EmailJS request that \<open>handleSubmit\<close>
  awaits is an explicit pending payload, settled later by the network, so that edits
  made while it is in flight interleave with it as they do in the browser. The requests
  sent and the toasts shown are logs in the state. The lemmas show that at most one
  request is in flight, that each request is answered by exactly one toast, what success
  and failure do to the fields, and what is sent.
\<close>

section \<open>Data\<close>

record form_fields =
  name :: string
  email :: string
  subject :: string
  message :: string

text \<open>The \<open>name\<close> attribute of each input, the key \<open>handleChange\<close> writes.\<close>

datatype form_field = Name | Email | Subject | Message

definition empty_form :: form_fields where
  "empty_form = \<lparr>name = [], email = [], subject = [], message = []\<rparr>"

text \<open>\<open>SERVICE_ID\<close>, \<open>TEMPLATE_ID\<close> and \<open>PUBLIC_KEY\<close>, read from the build environment.\<close>

record emailjs_config =
  service_id :: string
  template_id :: string
  public_key :: string

record toast =
  toast_title :: lookup_key
  toast_description :: lookup_key
  destructive :: bool

definition success_toast :: toast where
  "success_toast = \<lparr>toast_title = ''message_sent'', toast_description = ''message_sent_description'',
     destructive = False\<rparr>"

definition error_toast :: toast where
  "error_toast = \<lparr>toast_title = ''message_error'', toast_description = ''message_error_description'',
     destructive = True\<rparr>"

record contact_state =
  form_data :: form_fields
  is_submitting :: bool
  pending :: "form_fields option"
  sent :: "(emailjs_config \<times> form_fields) list"
  toasts :: "toast list"

definition init_contact :: contact_state where
  "init_contact = \<lparr>form_data = empty_form, is_submitting = False, pending = None, sent = [],
     toasts = []\<rparr>"

datatype contact_event = Change form_field string | Submit | SendResolved | SendRejected

section \<open>Operations\<close>

text \<open>The \<open>value\<close> each input displays, and \<open>handleChange\<close>.\<close>

fun field_value :: "form_fields \<Rightarrow> form_field \<Rightarrow> string" where
  "field_value fd Name = name fd"
| "field_value fd Email = email fd"
| "field_value fd Subject = subject fd"
| "field_value fd Message = message fd"

fun handle_change :: "form_fields \<Rightarrow> form_field \<Rightarrow> string \<Rightarrow> form_fields" where
  "handle_change fd Name v = fd\<lparr>name := v\<rparr>"
| "handle_change fd Email v = fd\<lparr>email := v\<rparr>"
| "handle_change fd Subject v = fd\<lparr>subject := v\<rparr>"
| "handle_change fd Message v = fd\<lparr>message := v\<rparr>"

text \<open>
  The browser submits the form only if every \<open>required\<close> field is non-empty and the
  \<open>type="email"\<close> input holds an address its validator accepts; that validator is the
  parameter \<open>valid_email\<close>.
\<close>

definition form_submittable :: "(string \<Rightarrow> bool) \<Rightarrow> form_fields \<Rightarrow> bool" where
  "form_submittable valid_email fd \<longleftrightarrow>
     name fd \<noteq> [] \<and> email fd \<noteq> [] \<and> subject fd \<noteq> [] \<and> message fd \<noteq> [] \<and> valid_email (email fd)"

text \<open>
  \<open>handleSubmit\<close> up to its \<open>await\<close>: the submit button is disabled while
  \<open>isSubmitting\<close> holds, so a submit then does nothing; otherwise the flag is set and
  \<open>emailjs.send\<close> is called with the four fields of the current \<open>formData\<close>.
\<close>

definition handle_submit ::
  "(string \<Rightarrow> bool) \<Rightarrow> emailjs_config \<Rightarrow> contact_state \<Rightarrow> contact_state" where
  "handle_submit valid_email cfg st =
     (if is_submitting st then st
      else if \<not> form_submittable valid_email (form_data st) then st
      else let payload = \<lparr>name = name (form_data st), email = email (form_data st),
                          subject = subject (form_data st), message = message (form_data st)\<rparr>
           in st\<lparr>is_submitting := True, pending := Some payload,
                 sent := sent st @ [(cfg, payload)]\<rparr>)"

text \<open>The rest of \<open>handleSubmit\<close>, when the awaited promise settles.\<close>

definition send_resolved :: "contact_state \<Rightarrow> contact_state" where
  "send_resolved st =
     (case pending st of
        None \<Rightarrow> st
      | Some _ \<Rightarrow> st\<lparr>toasts := toasts st @ [success_toast], form_data := empty_form,
                     is_submitting := False, pending := None\<rparr>)"

definition send_rejected :: "contact_state \<Rightarrow> contact_state" where
  "send_rejected st =
     (case pending st of
        None \<Rightarrow> st
      | Some _ \<Rightarrow> st\<lparr>toasts := toasts st @ [error_toast], is_submitting := False,
                     pending := None\<rparr>)"

fun contact_step ::
  "(string \<Rightarrow> bool) \<Rightarrow> emailjs_config \<Rightarrow> contact_state \<Rightarrow> contact_event \<Rightarrow> contact_state" where
  "contact_step valid_email cfg st (Change f v) = st\<lparr>form_data := handle_change (form_data st) f v\<rparr>"
| "contact_step valid_email cfg st Submit = handle_submit valid_email cfg st"
| "contact_step valid_email cfg st SendResolved = send_resolved st"
| "contact_step valid_email cfg st SendRejected = send_rejected st"

fun contact_run ::
  "(string \<Rightarrow> bool) \<Rightarrow> emailjs_config \<Rightarrow> contact_state \<Rightarrow> contact_event list \<Rightarrow> contact_state" where
  "contact_run valid_email cfg st [] = st"
| "contact_run valid_email cfg st (ev # evs) =
     contact_run valid_email cfg (contact_step valid_email cfg st ev) evs"

inductive contact_reachable ::
  "(string \<Rightarrow> bool) \<Rightarrow> emailjs_config \<Rightarrow> contact_state \<Rightarrow> bool"
  for valid_email cfg where
  init: "contact_reachable valid_email cfg init_contact"
| step: "contact_reachable valid_email cfg st \<Longrightarrow>
         contact_reachable valid_email cfg (contact_step valid_email cfg st ev)"

section \<open>The invariant\<close>

text \<open>
  The submit flag is set exactly while a request is pending, and every request sent
  has been answered by one toast except the pending one.
\<close>

definition contact_inv :: "contact_state \<Rightarrow> bool" where
  "contact_inv st \<longleftrightarrow>
     (is_submitting st \<longleftrightarrow> pending st \<noteq> None) \<and>
     length (sent st) = length (toasts st) + (if is_submitting st then 1 else 0)"

section \<open>Lemmas\<close>

lemma contact_step_inv: "contact_inv st \<Longrightarrow> contact_inv (contact_step valid_email cfg st ev)"
proof (cases ev)
  case Submit
  assume "contact_inv st"
  then show ?thesis using Submit by (simp add: contact_inv_def handle_submit_def Let_def)
next
  case SendResolved
  assume "contact_inv st"
  then show ?thesis using SendResolved
    by (auto simp: contact_inv_def send_resolved_def split: option.splits)
next
  case SendRejected
  assume "contact_inv st"
  then show ?thesis using SendRejected
    by (auto simp: contact_inv_def send_rejected_def split: option.splits)
qed (simp add: contact_inv_def)

lemma contact_reachable_inv: "contact_reachable valid_email cfg st \<Longrightarrow> contact_inv st"
proof (induction rule: contact_reachable.induct)
  case init
  show ?case by (simp add: contact_inv_def init_contact_def)
next
  case (step st ev)
  from step.IH show ?case by (rule contact_step_inv)
qed

subsection \<open>Properties\<close>

text \<open>C26. handleChange writes the value into the field named by the input and every other input keeps displaying its value.\<close>

lemma handle_change_field_value:
  "field_value (handle_change fd f v) g = (if g = f then v else field_value fd g)"
  by (cases f; cases g) simp_all

text \<open>C10. In every reachable state of the contact form, isSubmitting holds exactly while an EmailJS request is pending, and every request sent has been answered by exactly one toast except the pending one.\<close>

lemma contact_reachable_single_request:
  assumes "contact_reachable valid_email cfg st"
  shows "(is_submitting st \<longleftrightarrow> pending st \<noteq> None) \<and>
         length (sent st) = length (toasts st) + (if is_submitting st then 1 else 0)"
  using contact_reachable_inv [OF assms] by (simp add: contact_inv_def)

text \<open>C13. Submitting a valid form while no request is in flight sends exactly one EmailJS request with the configuration and the four current field values, and sets isSubmitting.\<close>

lemma submit_sends_form:
  assumes "\<not> is_submitting st" "form_submittable valid_email (form_data st)"
  shows "sent (contact_step valid_email cfg st Submit) = sent st @ [(cfg, form_data st)] \<and>
         pending (contact_step valid_email cfg st Submit) = Some (form_data st) \<and>
         is_submitting (contact_step valid_email cfg st Submit) \<and>
         form_data (contact_step valid_email cfg st Submit) = form_data st"
  using assms by (simp add: handle_submit_def Let_def)

text \<open>C14. While a request is in flight the disabled submit button makes a submit a no-op: no second request is sent.\<close>

lemma submit_while_submitting_ignored:
  "is_submitting st \<Longrightarrow> contact_step valid_email cfg st Submit = st"
  by (simp add: handle_submit_def)

text \<open>C11. When the pending send resolves, the form fields are cleared, a success toast is shown, isSubmitting is reset and no further request is sent.\<close>

lemma send_resolved_clears:
  assumes "pending st \<noteq> None"
  shows "form_data (contact_step valid_email cfg st SendResolved) = empty_form \<and>
         toasts (contact_step valid_email cfg st SendResolved) = toasts st @ [success_toast] \<and>
         \<not> is_submitting (contact_step valid_email cfg st SendResolved) \<and>
         sent (contact_step valid_email cfg st SendResolved) = sent st"
  using assms by (auto simp: send_resolved_def)

text \<open>C12. When the pending send is rejected, the form fields are kept for resubmission, a destructive error toast is shown, isSubmitting is reset and no further request is sent.\<close>

lemma send_rejected_preserves:
  assumes "pending st \<noteq> None"
  shows "form_data (contact_step valid_email cfg st SendRejected) = form_data st \<and>
         toasts (contact_step valid_email cfg st SendRejected) = toasts st @ [error_toast] \<and>
         \<not> is_submitting (contact_step valid_email cfg st SendRejected) \<and>
         sent (contact_step valid_email cfg st SendRejected) = sent st"
  using assms by (auto simp: send_rejected_def)

section \<open>Witnesses\<close>

theorem contact_reachable_single_request_witness:
  "(is_submitting init_contact \<longleftrightarrow> pending init_contact \<noteq> None) \<and>
   length (sent init_contact) = length (toasts init_contact) + (if is_submitting init_contact then 1 else 0)"
  using contact_reachable_single_request
      [OF contact_reachable.init [of "\<lambda>_. True" "\<lparr>service_id = ''svc'', template_id = ''tpl'', public_key = ''key''\<rparr>"]]
  by simp

theorem submit_sends_form_witness:
  "\<not> is_submitting (init_contact\<lparr>form_data := \<lparr>name = ''Ann'', email = ''ann@example.com'', subject = ''Quote'', message = ''Hi''\<rparr>\<rparr>) \<and>
   form_submittable (\<lambda>_. True) \<lparr>name = ''Ann'', email = ''ann@example.com'', subject = ''Quote'', message = ''Hi''\<rparr> \<and>
   sent (contact_step (\<lambda>_. True) \<lparr>service_id = ''svc'', template_id = ''tpl'', public_key = ''key''\<rparr>
     (init_contact\<lparr>form_data := \<lparr>name = ''Ann'', email = ''ann@example.com'', subject = ''Quote'', message = ''Hi''\<rparr>\<rparr>) Submit) =
   [(\<lparr>service_id = ''svc'', template_id = ''tpl'', public_key = ''key''\<rparr>,
     \<lparr>name = ''Ann'', email = ''ann@example.com'', subject = ''Quote'', message = ''Hi''\<rparr>)]"
proof -
  have h1: "\<not> is_submitting (init_contact\<lparr>form_data := \<lparr>name = ''Ann'', email = ''ann@example.com'', subject = ''Quote'', message = ''Hi''\<rparr>\<rparr>)"
    by (simp add: init_contact_def)
  have h2: "form_submittable (\<lambda>_. True) (form_data (init_contact\<lparr>form_data := \<lparr>name = ''Ann'', email = ''ann@example.com'', subject = ''Quote'', message = ''Hi''\<rparr>\<rparr>))"
    by (simp add: form_submittable_def)
  show ?thesis
    using submit_sends_form [OF h1 h2, of "\<lparr>service_id = ''svc'', template_id = ''tpl'', public_key = ''key''\<rparr>"] h1 h2
    by (simp add: init_contact_def)
qed

theorem submit_while_submitting_ignored_witness:
  "is_submitting (init_contact\<lparr>is_submitting := True\<rparr>) \<and>
   contact_step (\<lambda>_. True) \<lparr>service_id = ''svc'', template_id = ''tpl'', public_key = ''key''\<rparr>
     (init_contact\<lparr>is_submitting := True\<rparr>) Submit = init_contact\<lparr>is_submitting := True\<rparr>"
  using submit_while_submitting_ignored [of "init_contact\<lparr>is_submitting := True\<rparr>" "\<lambda>_. True"
      "\<lparr>service_id = ''svc'', template_id = ''tpl'', public_key = ''key''\<rparr>"]
  by simp

theorem send_resolved_clears_witness:
  "pending (init_contact\<lparr>is_submitting := True, pending := Some empty_form\<rparr>) \<noteq> None \<and>
   toasts (contact_step (\<lambda>_. True) \<lparr>service_id = ''svc'', template_id = ''tpl'', public_key = ''key''\<rparr>
     (init_contact\<lparr>is_submitting := True, pending := Some empty_form\<rparr>) SendResolved) = [success_toast]"
  using send_resolved_clears [of "init_contact\<lparr>is_submitting := True, pending := Some empty_form\<rparr>" "\<lambda>_. True"
      "\<lparr>service_id = ''svc'', template_id = ''tpl'', public_key = ''key''\<rparr>"]
  by (simp add: init_contact_def)

theorem send_rejected_preserves_witness:
  "pending (init_contact\<lparr>is_submitting := True, pending := Some empty_form\<rparr>) \<noteq> None \<and>
   toasts (contact_step (\<lambda>_. True) \<lparr>service_id = ''svc'', template_id = ''tpl'', public_key = ''key''\<rparr>
     (init_contact\<lparr>is_submitting := True, pending := Some empty_form\<rparr>) SendRejected) = [error_toast]"
  using send_rejected_preserves [of "init_contact\<lparr>is_submitting := True, pending := Some empty_form\<rparr>" "\<lambda>_. True"
      "\<lparr>service_id = ''svc'', template_id = ''tpl'', public_key = ''key''\<rparr>"]
  by (simp add: init_contact_def)

end
