(* ===== verification/Spec2Isabelle.thy ===== *)
theory Spec2Isabelle
  imports ProductsPage ContactForm
begin

text \<open>
  \<^bold>\<open>A verification library for the motorcade product site.\<close>

  The repository is a React/TypeScript marketing site. Two of its components carry
  behaviour: the product listing \<open>src/src/pages/Products.tsx\<close> and the contact form
  \<open>src/src/components/ContactForm.tsx\<close>. They do not interact. Each is a component
  whose \<open>useState\<close> hooks are its state. The browser and the network deliver its
  events: clicks, keystrokes, a request settling. Each event runs a handler and, for
  the listing, the filtering \<open>useEffect\<close>.

  \<^bold>\<open>Theories.\<close>
  \<^item> \<open>Prelude\<close>: the type names (translation keys, the translation function,
    millisecond timestamps), the rule collections, and the chunking lemma on lists the
    pagination uses.
  \<^item> \<open>JsRuntime\<close>: the JavaScript built-ins the listing calls, with their ECMAScript
    meaning. \<open>js_to_lower\<close> is \<open>toLowerCase\<close> on ASCII letters,
    \<open>js_includes\<close> is \<open>String.prototype.includes\<close>, \<open>js_slice\<close> is
    \<open>Array.prototype.slice\<close> with its negative indices, \<open>js_sort\<close> is
    \<open>Array.prototype.sort\<close> with a comparator, as a stable insertion sort, and
    \<open>js_ceil_div\<close> is \<open>Math.ceil(a / b)\<close>. Each is tied to the library function it
    agrees with: \<open>sublist\<close>, \<open>take\<close>/\<open>drop\<close>, \<open>sort_key\<close>, the real ceiling.
  \<^item> \<open>Catalog\<close>: the product record, the category buttons (lines 12--20), and the
    filter and comparator of the second effect (lines 49--66), composed as
    \<open>filter_and_sort\<close>. The lemmas characterise the result: membership,
    date order, stability, the no-op name sorts, case-insensitive search, and that no
    other stable ordering exists.
  \<^item> \<open>Pagination\<close>: \<open>itemsPerPage\<close>, \<open>totalPages\<close>, the page slice, and the
    previous, next and page-number buttons (lines 29, 72--76, 167--196). The lemmas show
    that the pages partition the list, bound each page, and give the 20-product example.
  \<^item> \<open>ProductsPage\<close>: the component as a state machine. \<open>page_state\<close> holds the
    hooks of lines 22--28 and the translation function. \<open>page_handle\<close> holds the
    handlers: the mount fetch of lines 31--44 as the events \<open>FetchResolved\<close> and
    \<open>FetchFailed\<close>, the search input, the category buttons, the sort select, the
    pagination buttons, and a language switch (which changes \<open>t\<close>). \<open>filter_effect\<close>
    is the effect of lines 46--70. \<open>page_step\<close> runs a handler, then the effect
    when a dependency changed under \<open>Object.is\<close>. \<open>render\<close> is what the JSX of
    lines 146--196 shows. \<open>page_reachable\<close> is the inductive set of reachable states.
    Its invariant \<open>page_inv\<close> says that the derived view is the pipeline of the
    current inputs and bounds the page, and is proved by rule induction.
  \<^item> \<open>ContactForm\<close>: \<open>formData\<close> and \<open>isSubmitting\<close> plus an explicit pending
    payload, so that the awaited \<open>emailjs.send\<close> is two steps: the submit, and
    later the network's answer. Edits can interleave between them. Logs of the requests
    sent and the toasts shown make the effects observable. \<open>contact_step\<close> is one
    event and \<open>contact_reachable\<close> the reachable states. The invariant says that
    \<open>isSubmitting\<close> holds exactly while a request is pending and that every answered
    request produced one toast.
  \<^item> This theory: runs of the whole page from its mount that no general lemma covers.
    These are the 20-product walk of the specification, the empty catalogue that shows
    the no-products message, and the enabled next button of an empty listing, which
    reaches page 0. The contact form's scenarios are instances of its general lemmas and
    are not repeated here.

  \<^bold>\<open>Modelling choices.\<close>
  A step ends in the state React renders once the effect has run. The intermediate
  render between the handler and the effect is not modelled. With or without React's
  batching of the two updates in the fetch callback, the settled state is the same.
  Page numbers are \<open>int\<close>, because the code can make them 0. Dates are the
  millisecond values \<open>getTime\<close> returns, so a valid date string is assumed. Lists are
  finite and every function is total and structural, so no fuel or
  \<open>partial_function\<close> is needed: every event is handled in one step.

  \<^bold>\<open>What is not modelled.\<close>
  \<^item> The translation function is a parameter: any \<open>t\<close> is allowed.
  \<^item> \<open>toLowerCase\<close> is modelled on ASCII only.
  \<^item> The browser's \<open>type="email"\<close> check is a parameter \<open>valid_email\<close>.
  \<^item> Not modelled at all: EmailJS and the network (their outcome is the environment's
    choice of event), the toast presentation, \<open>ProductCard\<close>, \<open>Navbar\<close>,
    \<open>Footer\<close>, \<open>AnimatedSection\<close>, styling, and the product data file.
  \<^item> A malformed \<open>products.json\<close> (not an array) or an invalid date string (a NaN
    comparator) are outside the model. Both are recorded as gaps.

  \<^bold>\<open>Plan for further work.\<close>
  \<^enum> Dates as \<open>int option\<close> (an invalid date is NaN), the comparator's NaN-to-0 rule,
    and what can be proved of \<open>sort\<close> for an inconsistent comparator.
  \<^enum> An abstract specification of the listing: the rendered view as a function of the
    inputs, with \<open>page_step\<close> refining it, and the language switch (\<open>t\<close> as a
    dependency) with the stale category label it leaves behind.
  \<^enum> Trace properties of the contact form over \<open>contact_run\<close>: the requests sent
    are exactly the submitted snapshots, in order.
  \<^enum> Full Unicode \<open>toLowerCase\<close> is out of reach of 8-bit \<open>char\<close>; the ASCII model
    stays, and its limit stays stated.
\<close>

section \<open>Fixtures\<close>

definition demo_product :: product where
  "demo_product = \<lparr>product_id = 1, category = ''category.loader'', name_key = ''products.l1.name'',
     description_key = ''products.l1.description'', date = 1700000000000\<rparr>"

section \<open>Scenarios of the product listing\<close>

text \<open>C7. When the catalogue loads empty, the Next button is enabled (currentPage 1 differs from totalPages 0) and a click sets currentPage to 0, outside [1, totalPages], with Previous enabled and no page buttons.\<close>

theorem empty_listing_next_page_zero:
  "current_page (page_run (init_page tr) [FetchResolved [], ClickNext]) = 0 \<and>
   grid (render (page_run (init_page tr) [FetchResolved [], ClickNext])) = NoProductsFound \<and>
   \<not> previous_disabled (render (page_run (init_page tr) [FetchResolved [], ClickNext])) \<and>
   page_numbers (render (page_run (init_page tr) [FetchResolved [], ClickNext])) = []"
  by (simp add: page_step_def filter_effect_def init_page_def filter_and_sort_def render_def
      next_disabled_def next_target_def prev_disabled_def page_buttons_def total_pages_nat Let_def
      paginate_def items_per_page_def js_simps)

text \<open>C29. An empty catalogue with category all and an empty query shows the no-products message, not the loading indicator.\<close>

theorem empty_catalog_shows_no_products:
  "grid (render (page_run (init_page tr) [FetchResolved []])) = NoProductsFound"
  by (simp add: page_step_def filter_effect_def init_page_def filter_and_sort_def render_def
      Let_def paginate_pos)

text \<open>C30. After loading 20 products and clicking Next twice, page 3 is active, Next is disabled, Previous is enabled, the page buttons are 1, 2, 3 and the grid shows the last two products of the filtered list.\<close>

theorem twenty_products_walk:
  assumes "length ps = 20"
  shows "let st = page_run (init_page tr) [FetchResolved ps, ClickNext, ClickNext] in
         active_page (render st) = 3 \<and> next_is_disabled (render st) \<and>
         \<not> previous_disabled (render st) \<and> page_numbers (render st) = [1, 2, 3] \<and>
         grid (render st) = ProductGrid (drop 18 (filter_and_sort tr (hd (categories tr)) [] ''newest'' ps))"
  using assms
  by (simp add: page_step_def filter_effect_def init_page_def render_def Let_def paginate_pos
      total_pages_nat next_disabled_def next_target_def prev_disabled_def page_buttons_def upt_rec)

section \<open>Witnesses\<close>

theorem twenty_products_walk_witness:
  "length (replicate 20 demo_product) = 20 \<and>
   active_page (render (page_run (init_page (\<lambda>k. k))
     [FetchResolved (replicate 20 demo_product), ClickNext, ClickNext])) = 3"
  using twenty_products_walk [of "replicate 20 demo_product" "\<lambda>k. k"] by (simp add: Let_def)

end
